theory Spec2Isabelle
  imports Main "HOL-Library.Word"
begin

unbundle bit_operations_syntax

section \<open>Python values of the sample client\<close>

text \<open>
  The webhook part of \<^verbatim>\<open>docs/api/sample-clients/python-client.py\<close>: the class
  \<^verbatim>\<open>WebhookVerifier\<close> and the Flask route \<^verbatim>\<open>handle_webhook\<close>.

  A Python \<^verbatim>\<open>str\<close> is a sequence of code points (numbers below \<open>0x110000\<close>, lone
  surrogates included); \<^verbatim>\<open>bytes\<close> is a sequence of octets. \<^verbatim>\<open>None\<close> is the
  \<open>None\<close> of an option type. An exception is the left injection of a sum.
\<close>

type_synonym byte = "8 word"
type_synonym bytes = "byte list"
type_synonym u32 = "32 word"
type_synonym codepoint = nat
type_synonym pystr = "codepoint list"

datatype error =
    UnicodeEncodeError
  | TypeError
  | AttributeError
  | BadRequest
  | UnsupportedMediaType
  | OSError

text \<open>A string literal of the source, as the code points of its (ASCII) characters.\<close>

definition py :: "string \<Rightarrow> pystr" where
  "py s = map of_char s"

subsection \<open>\<^verbatim>\<open>str.encode('utf-8')\<close>\<close>

definition is_surrogate :: "codepoint \<Rightarrow> bool" where
  "is_surrogate c \<longleftrightarrow> 0xD800 \<le> c \<and> c \<le> 0xDFFF"

text \<open>
  The strict UTF-8 codec refuses a surrogate with \<^verbatim>\<open>UnicodeEncodeError\<close>. A number
  from \<open>0x110000\<close> on is no code point: no Python string holds one, and the model refuses it
  the same way, so that every list the encoder accepts is a Python string.
\<close>

definition encodable :: "codepoint \<Rightarrow> bool" where
  "encodable c \<longleftrightarrow> c < 0x110000 \<and> \<not> is_surrogate c"

definition utf8_char :: "codepoint \<Rightarrow> nat list" where
  "utf8_char c =
     (if c < 0x80 then [c]
      else if c < 0x800 then [0xC0 + c div 64, 0x80 + c mod 64]
      else if c < 0x10000 then
        [0xE0 + c div 4096, 0x80 + c div 64 mod 64, 0x80 + c mod 64]
      else
        [0xF0 + c div 262144, 0x80 + c div 4096 mod 64,
         0x80 + c div 64 mod 64, 0x80 + c mod 64])"

fun str_encode :: "pystr \<Rightarrow> error + bytes" where
  "str_encode [] = Inr []"
| "str_encode (c # cs) =
     (if \<not> encodable c then Inl UnicodeEncodeError
      else case str_encode cs of
             Inl e \<Rightarrow> Inl e
           | Inr bs \<Rightarrow> Inr (map of_nat (utf8_char c) @ bs))"

subsection \<open>\<^verbatim>\<open>bytes.decode('utf-8', errors='replace')\<close>\<close>

text \<open>
  Flask's \<^verbatim>\<open>request.get_data(as_text=True)\<close> decodes the body as UTF-8 and replaces every
  ill-formed sequence by U+FFFD. The decoder follows CPython's: an invalid start byte consumes
  one byte, an invalid continuation byte ends the sequence before it, and a sequence cut off
  by the end of the data is replaced as a whole. \<open>decode_one\<close> yields the code point and the
  number of bytes it consumed.
\<close>

definition cont :: "nat \<Rightarrow> bool" where
  "cont b \<longleftrightarrow> 0x80 \<le> b \<and> b < 0xC0"

definition second_ok :: "nat \<Rightarrow> nat \<Rightarrow> bool" where
  "second_ok b0 b1 \<longleftrightarrow>
     cont b1 \<and> \<not> (b0 = 0xE0 \<and> b1 < 0xA0) \<and> \<not> (b0 = 0xED \<and> 0xA0 \<le> b1)
             \<and> \<not> (b0 = 0xF0 \<and> b1 < 0x90) \<and> \<not> (b0 = 0xF4 \<and> 0x90 \<le> b1)"

definition REPLACEMENT :: codepoint where
  "REPLACEMENT = 0xFFFD"

fun decode_one :: "nat list \<Rightarrow> codepoint \<times> nat" where
  "decode_one [] = (REPLACEMENT, 1)"
| "decode_one (b0 # bs) =
     (if b0 < 0x80 then (b0, 1)
      else if b0 < 0xC2 then (REPLACEMENT, 1)
      else if b0 < 0xE0 then
        (case bs of
           [] \<Rightarrow> (REPLACEMENT, 1)
         | b1 # _ \<Rightarrow>
             if cont b1 then ((b0 - 0xC0) * 64 + (b1 - 0x80), 2) else (REPLACEMENT, 1))
      else if b0 < 0xF0 then
        (case bs of
           [] \<Rightarrow> (REPLACEMENT, 1)
         | [b1] \<Rightarrow> if second_ok b0 b1 then (REPLACEMENT, 2) else (REPLACEMENT, 1)
         | b1 # b2 # _ \<Rightarrow>
             if \<not> second_ok b0 b1 then (REPLACEMENT, 1)
             else if \<not> cont b2 then (REPLACEMENT, 2)
             else ((b0 - 0xE0) * 4096 + (b1 - 0x80) * 64 + (b2 - 0x80), 3))
      else if b0 < 0xF5 then
        (case bs of
           [] \<Rightarrow> (REPLACEMENT, 1)
         | [b1] \<Rightarrow> if second_ok b0 b1 then (REPLACEMENT, 2) else (REPLACEMENT, 1)
         | [b1, b2] \<Rightarrow>
             if \<not> second_ok b0 b1 then (REPLACEMENT, 1)
             else if \<not> cont b2 then (REPLACEMENT, 2)
             else (REPLACEMENT, 3)
         | b1 # b2 # b3 # _ \<Rightarrow>
             if \<not> second_ok b0 b1 then (REPLACEMENT, 1)
             else if \<not> cont b2 then (REPLACEMENT, 2)
             else if \<not> cont b3 then (REPLACEMENT, 3)
             else ((b0 - 0xF0) * 262144 + (b1 - 0x80) * 4096
                     + (b2 - 0x80) * 64 + (b3 - 0x80), 4))
      else (REPLACEMENT, 1))"

function utf8_decode_replace :: "nat list \<Rightarrow> pystr" where
  "utf8_decode_replace [] = []"
| "utf8_decode_replace (b # bs) =
     fst (decode_one (b # bs)) # utf8_decode_replace (drop (snd (decode_one (b # bs))) (b # bs))"
  by pat_completeness auto

termination utf8_decode_replace
proof (relation "measure length")
  show "wf (measure length)" by simp
next
  fix b :: nat and bs :: "nat list"
  have "0 < snd (decode_one (b # bs))" by (auto split: list.splits)
  then show "(drop (snd (decode_one (b # bs))) (b # bs), b # bs) \<in> measure length"
    by simp
qed

definition bytes_decode :: "bytes \<Rightarrow> pystr" where
  "bytes_decode bs = utf8_decode_replace (map unat bs)"

section \<open>\<^verbatim>\<open>hashlib.sha256\<close> and \<^verbatim>\<open>hmac.new(...).hexdigest()\<close>\<close>

text \<open>
  SHA-256 (FIPS 180-4) on 32-bit words, and HMAC (RFC 2104) as Python's \<^verbatim>\<open>hmac\<close> module
  computes it: a key longer than the 64-byte block is hashed first, the key is padded with
  zero bytes to the block, and the digest is \<open>H((k xor opad) || H((k xor ipad) || msg))\<close>.
  The round constants \<open>K256\<close> are the first 32 bits of the fractional parts of the cube
  roots of the first 64 primes, written in decimal; the initial state is the same of the
  square roots of the first 8 primes.
\<close>

definition rotr :: "nat \<Rightarrow> u32 \<Rightarrow> u32" where
  "rotr n x = drop_bit n x OR push_bit (32 - n) x"

definition Ch :: "u32 \<Rightarrow> u32 \<Rightarrow> u32 \<Rightarrow> u32" where
  "Ch x y z = (x AND y) XOR (NOT x AND z)"

definition Maj :: "u32 \<Rightarrow> u32 \<Rightarrow> u32 \<Rightarrow> u32" where
  "Maj x y z = (x AND y) XOR (x AND z) XOR (y AND z)"

definition bsig0 :: "u32 \<Rightarrow> u32" where
  "bsig0 x = rotr 2 x XOR rotr 13 x XOR rotr 22 x"

definition bsig1 :: "u32 \<Rightarrow> u32" where
  "bsig1 x = rotr 6 x XOR rotr 11 x XOR rotr 25 x"

definition ssig0 :: "u32 \<Rightarrow> u32" where
  "ssig0 x = rotr 7 x XOR rotr 18 x XOR drop_bit 3 x"

definition ssig1 :: "u32 \<Rightarrow> u32" where
  "ssig1 x = rotr 17 x XOR rotr 19 x XOR drop_bit 10 x"

definition K256 :: "u32 list" where
  "K256 =
    [
     1116352408, 1899447441, 3049323471, 3921009573,
     961987163, 1508970993, 2453635748, 2870763221,
     3624381080, 310598401, 607225278, 1426881987,
     1925078388, 2162078206, 2614888103, 3248222580,
     3835390401, 4022224774, 264347078, 604807628,
     770255983, 1249150122, 1555081692, 1996064986,
     2554220882, 2821834349, 2952996808, 3210313671,
     3336571891, 3584528711, 113926993, 338241895,
     666307205, 773529912, 1294757372, 1396182291,
     1695183700, 1986661051, 2177026350, 2456956037,
     2730485921, 2820302411, 3259730800, 3345764771,
     3516065817, 3600352804, 4094571909, 275423344,
     430227734, 506948616, 659060556, 883997877,
     958139571, 1322822218, 1537002063, 1747873779,
     1955562222, 2024104815, 2227730452, 2361852424,
     2428436474, 2756734187, 3204031479, 3329325298]"

type_synonym hstate = "u32 \<times> u32 \<times> u32 \<times> u32 \<times> u32 \<times> u32 \<times> u32 \<times> u32"

definition H256_init :: hstate where
  "H256_init = (0x6a09e667, 0xbb67ae85, 0x3c6ef372, 0xa54ff53a,
                0x510e527f, 0x9b05688c, 0x1f83d9ab, 0x5be0cd19)"

text \<open>Big-endian packing of bytes into a word, and back.\<close>

fun be_word :: "bytes \<Rightarrow> u32" where
  "be_word [] = 0"
| "be_word (b # bs) = push_bit (8 * length bs) (ucast b) OR be_word bs"

definition word_bytes :: "u32 \<Rightarrow> bytes" where
  "word_bytes w = [ucast (drop_bit 24 w), ucast (drop_bit 16 w), ucast (drop_bit 8 w), ucast w]"

text \<open>The message length in bits, as the 64-bit big-endian trailer of the padding.\<close>

definition len_bytes :: "nat \<Rightarrow> bytes" where
  "len_bytes n =
     (let l = (of_nat n :: 64 word)
      in map (\<lambda>i. ucast (drop_bit (8 * i) l)) [7, 6, 5, 4, 3, 2, 1, 0])"

definition sha_pad :: "bytes \<Rightarrow> bytes" where
  "sha_pad m =
     m @ [0x80] @ replicate ((119 - length m mod 64) mod 64) 0 @ len_bytes (8 * length m)"

fun chunks :: "nat \<Rightarrow> nat \<Rightarrow> 'a list \<Rightarrow> 'a list list" where
  "chunks 0 k xs = []"
| "chunks (Suc n) k xs = take k xs # chunks n k (drop k xs)"

definition block_words :: "bytes \<Rightarrow> u32 list" where
  "block_words b = map be_word (chunks 16 4 b)"

text \<open>
  The message schedule, newest word first: with \<open>W[t-1]\<close> at the head, the next word is
  \<open>ssig1 W[t-2] + W[t-7] + ssig0 W[t-15] + W[t-16]\<close>.
\<close>

fun schedule :: "nat \<Rightarrow> u32 list \<Rightarrow> u32 list" where
  "schedule 0 ws = ws"
| "schedule (Suc n) ws =
     schedule n ((ssig1 (ws ! 1) + ws ! 6 + ssig0 (ws ! 14) + ws ! 15) # ws)"

definition round256 :: "hstate \<Rightarrow> u32 \<times> u32 \<Rightarrow> hstate" where
  "round256 s kw =
     (case s of (a, b, c, d, e, f, g, h) \<Rightarrow>
      case kw of (k, w) \<Rightarrow>
        let t1 = h + bsig1 e + Ch e f g + k + w;
            t2 = bsig0 a + Maj a b c
        in (t1 + t2, a, b, c, d + t1, e, f, g))"

definition add_state :: "hstate \<Rightarrow> hstate \<Rightarrow> hstate" where
  "add_state s t =
     (case s of (a, b, c, d, e, f, g, h) \<Rightarrow>
      case t of (a', b', c', d', e', f', g', h') \<Rightarrow>
        (a + a', b + b', c + c', d + d', e + e', f + f', g + g', h + h'))"

definition compress :: "hstate \<Rightarrow> bytes \<Rightarrow> hstate" where
  "compress hs blk =
     (let ws = rev (schedule 48 (rev (block_words blk)))
      in add_state hs (foldl round256 hs (zip K256 ws)))"

definition state_bytes :: "hstate \<Rightarrow> bytes" where
  "state_bytes s =
     (case s of (a, b, c, d, e, f, g, h) \<Rightarrow>
        concat (map word_bytes [a, b, c, d, e, f, g, h]))"

definition sha256 :: "bytes \<Rightarrow> bytes" where
  "sha256 m =
     (let p = sha_pad m
      in state_bytes (foldl compress H256_init (chunks (length p div 64) 64 p)))"

definition hmac_sha256 :: "bytes \<Rightarrow> bytes \<Rightarrow> bytes" where
  "hmac_sha256 key msg =
     (let k0 = (if 64 < length key then sha256 key else key);
          k = k0 @ replicate (64 - length k0) 0
      in sha256 (map (\<lambda>b. b XOR 0x5c) k @ sha256 (map (\<lambda>b. b XOR 0x36) k @ msg)))"

text \<open>\<^verbatim>\<open>hexdigest()\<close>: two lowercase hexadecimal digits for each byte, as a \<^verbatim>\<open>str\<close>.\<close>

definition hex_digit :: "nat \<Rightarrow> codepoint" where
  "hex_digit n = (if n < 10 then 48 + n else 87 + n)"

definition hex_byte :: "byte \<Rightarrow> pystr" where
  "hex_byte b = [hex_digit (unat b div 16), hex_digit (unat b mod 16)]"

definition hexdigest :: "bytes \<Rightarrow> pystr" where
  "hexdigest bs = concat (map hex_byte bs)"

definition is_lower_hex :: "codepoint \<Rightarrow> bool" where
  "is_lower_hex c \<longleftrightarrow> (48 \<le> c \<and> c \<le> 57) \<or> (97 \<le> c \<and> c \<le> 102)"

text \<open>
  Reading a hexadecimal string back (\<^verbatim>\<open>bytes.fromhex\<close> on well-formed input), to say
  which bytes a digest string encodes.
\<close>

definition hex_value :: "codepoint \<Rightarrow> nat" where
  "hex_value c = (if c < 58 then c - 48 else c - 87)"

fun fromhex :: "pystr \<Rightarrow> bytes" where
  "fromhex (a # b # cs) = of_nat (hex_value a * 16 + hex_value b) # fromhex cs"
| "fromhex _ = []"

subsection \<open>\<^verbatim>\<open>hmac.compare_digest\<close>\<close>

text \<open>
  The arguments must be of one type. For two \<^verbatim>\<open>str\<close> both must be ASCII only; anything
  else, \<^verbatim>\<open>None\<close> included, raises \<^verbatim>\<open>TypeError\<close>. The second argument of the only
  call in the source is the \<^verbatim>\<open>str\<close> that \<^verbatim>\<open>hexdigest()\<close> returned.
\<close>

definition is_ascii :: "pystr \<Rightarrow> bool" where
  "is_ascii s \<longleftrightarrow> list_all (\<lambda>c. c < 128) s"

definition compare_digest :: "pystr option \<Rightarrow> pystr \<Rightarrow> error + bool" where
  "compare_digest a b =
     (case a of
        None \<Rightarrow> Inl TypeError
      | Some s \<Rightarrow> if is_ascii s \<and> is_ascii b then Inr (s = b) else Inl TypeError)"

section \<open>The class \<^verbatim>\<open>WebhookVerifier\<close>\<close>

record WebhookVerifier =
  secret :: bytes

text \<open>
  \<^verbatim>\<open>__init__\<close> stores \<^verbatim>\<open>secret.encode('utf-8')\<close> and checks nothing. \<^verbatim>\<open>None\<close> has no
  attribute \<^verbatim>\<open>encode\<close>.
\<close>

definition WebhookVerifier_init :: "pystr option \<Rightarrow> error + WebhookVerifier" where
  "WebhookVerifier_init secret_arg =
     (case secret_arg of
        None \<Rightarrow> Inl AttributeError
      | Some s \<Rightarrow>
          (case str_encode s of
             Inl e \<Rightarrow> Inl e
           | Inr k \<Rightarrow> Inr \<lparr>secret = k\<rparr>))"

definition generate_signature :: "WebhookVerifier \<Rightarrow> pystr \<Rightarrow> error + pystr" where
  "generate_signature self payload =
     (case str_encode payload of
        Inl e \<Rightarrow> Inl e
      | Inr msg \<Rightarrow> Inr (hexdigest (hmac_sha256 (secret self) msg)))"

definition verify_signature :: "WebhookVerifier \<Rightarrow> pystr \<Rightarrow> pystr option \<Rightarrow> error + bool" where
  "verify_signature self payload signature =
     (case str_encode payload of
        Inl e \<Rightarrow> Inl e
      | Inr msg \<Rightarrow>
          (let expected_signature = hexdigest (hmac_sha256 (secret self) msg)
           in compare_digest signature expected_signature))"

text \<open>The expression \<^verbatim>\<open>v.verify_signature(P, v.generate_signature(P))\<close>.\<close>

definition sign_then_verify :: "WebhookVerifier \<Rightarrow> pystr \<Rightarrow> error + bool" where
  "sign_then_verify self payload =
     (case generate_signature self payload of
        Inl e \<Rightarrow> Inl e
      | Inr s \<Rightarrow> verify_signature self payload (Some s))"

section \<open>The Flask route \<^verbatim>\<open>handle_webhook\<close>\<close>

text \<open>
  A parsed JSON document as Python holds it; a float is kept as its IEEE-754 bit pattern.
  A \<^verbatim>\<open>dict\<close> is an association list read with \<open>map_of\<close>.
\<close>

datatype json =
    JNone
  | JBool bool
  | JInt int
  | JFloat "64 word"
  | JStr pystr
  | JList "json list"
  | JDict "(pystr \<times> json) list"

text \<open>
  The request as the handler reads it: the header lines, the raw body
  (\<^verbatim>\<open>request.get_data()\<close>), and what \<^verbatim>\<open>request.get_json()\<close> yields for it, which is the
  parsed body or the HTTP error that Flask raises (wrong content type, malformed JSON).
\<close>

record request =
  headers :: "(string \<times> pystr) list"
  data :: bytes
  get_json :: "error + json"

record response =
  status :: nat
  body :: json

text \<open>
  \<^verbatim>\<open>request.headers.get(name)\<close>: header names are compared without regard to the case of
  ASCII letters; the values of repeated lines of one name reach the handler as one string,
  joined by a comma; without a line of that name the result is \<^verbatim>\<open>None\<close>.
\<close>

definition ascii_lower :: "char \<Rightarrow> nat" where
  "ascii_lower c = (let n = of_char c in if 65 \<le> n \<and> n \<le> 90 then n + 32 else n)"

definition same_name :: "string \<Rightarrow> string \<Rightarrow> bool" where
  "same_name a b \<longleftrightarrow> map ascii_lower a = map ascii_lower b"

fun comma_join :: "pystr list \<Rightarrow> pystr" where
  "comma_join [] = []"
| "comma_join [v] = v"
| "comma_join (v # w # vs) = v @ [44] @ comma_join (w # vs)"

definition headers_get :: "(string \<times> pystr) list \<Rightarrow> string \<Rightarrow> pystr option" where
  "headers_get hs name =
     (case filter (\<lambda>kv. same_name (fst kv) name) hs of
        [] \<Rightarrow> None
      | kv # kvs \<Rightarrow> Some (comma_join (map snd (kv # kvs))))"

text \<open>
  What the handler does besides answering: the call of \<^verbatim>\<open>request.get_json()\<close> and the
  line it prints, an f-string of a fixed text and a formatted value.
\<close>

datatype effect =
    GetJson
  | Print string json

text \<open>
  The standard output of the process is not part of the source. It is a parameter of the
  handler: what the statement \<^verbatim>\<open>print(f"<text>{value}")\<close> does there, \<open>None\<close> when the
  line is written and \<open>Some e\<close> when formatting or writing raises \<open>e\<close>.

  \<open>utf8_stdout\<close> is a UTF-8 text stream with strict error handling. A \<^verbatim>\<open>str\<close> value is
  formatted as it is, so a lone surrogate in it cannot be encoded and \<^verbatim>\<open>print\<close> raises
  \<^verbatim>\<open>UnicodeEncodeError\<close>; every other value is formatted through \<^verbatim>\<open>repr\<close>, which
  escapes the surrogates of the strings inside it.
\<close>

type_synonym stdout = "string \<Rightarrow> json \<Rightarrow> error option"

definition utf8_stdout :: stdout where
  "utf8_stdout text val =
     (case val of
        JStr s \<Rightarrow> (if list_all encodable s then None else Some UnicodeEncodeError)
      | _ \<Rightarrow> None)"

definition get_data_as_text :: "request \<Rightarrow> pystr" where
  "get_data_as_text r = bytes_decode (data r)"

text \<open>\<^verbatim>\<open>data.get(key)\<close>: only a \<^verbatim>\<open>dict\<close> has the method; a missing key gives \<^verbatim>\<open>None\<close>.\<close>

definition dict_get :: "(pystr \<times> json) list \<Rightarrow> pystr \<Rightarrow> json" where
  "dict_get kvs k = (case map_of kvs k of None \<Rightarrow> JNone | Some v \<Rightarrow> v)"

fun py_get :: "json \<Rightarrow> pystr \<Rightarrow> error + json" where
  "py_get (JDict kvs) k = Inr (dict_get kvs k)"
| "py_get _ k = Inl AttributeError"

text \<open>The branch on the event type: the text and the value of the line to print.\<close>

definition dispatch :: "json \<Rightarrow> json \<Rightarrow> string \<times> json" where
  "dispatch event_type event_data =
     (if event_type = JStr (py ''purchase.completed'') then
        (''Purchase completed: '', event_data)
      else if event_type = JStr (py ''content.uploaded'') then
        (''Content uploaded: '', event_data)
      else if event_type = JStr (py ''payout.processed'') then
        (''Payout processed: '', event_data)
      else (''Unknown event type: '', event_type))"

text \<open>
  The handler yields its outcome, a response or the exception it ends with, and its effects
  in order. An exception of \<^verbatim>\<open>print\<close> ends the handler before
  \<^verbatim>\<open>return jsonify({'received': True})\<close>.
\<close>

definition handle_webhook ::
  "stdout \<Rightarrow> WebhookVerifier \<Rightarrow> request \<Rightarrow> (error + response) \<times> effect list" where
  "handle_webhook out verifier r =
     (let signature = headers_get (headers r) ''X-Webhook-Signature'';
          payload = get_data_as_text r
      in case verify_signature verifier payload signature of
           Inl e \<Rightarrow> (Inl e, [])
         | Inr False \<Rightarrow>
             (Inr \<lparr>status = 401, body = JDict [(py ''error'', JStr (py ''Invalid signature''))]\<rparr>,
              [])
         | Inr True \<Rightarrow>
             (case get_json r of
                Inl e \<Rightarrow> (Inl e, [GetJson])
              | Inr d \<Rightarrow>
                  (case py_get d (py ''type'') of
                     Inl e \<Rightarrow> (Inl e, [GetJson])
                   | Inr event_type \<Rightarrow>
                       (case py_get d (py ''data'') of
                          Inl e \<Rightarrow> (Inl e, [GetJson])
                        | Inr event_data \<Rightarrow>
                            (case dispatch event_type event_data of
                               (text, val) \<Rightarrow>
                                 (case out text val of
                                    Some e \<Rightarrow> (Inl e, [GetJson])
                                  | None \<Rightarrow>
                                      (Inr \<lparr>status = 200,
                                            body = JDict [(py ''received'', JBool True)]\<rparr>,
                                       [GetJson, Print text val])))))))"

section \<open>UTF-8: decoding what the encoder wrote\<close>

lemma split3: "(c::nat) = c div 4096 * 4096 + c div 64 mod 64 * 64 + c mod 64"
proof -
  have a: "c div 64 div 64 = c div 4096" by (simp add: div_mult2_eq [symmetric])
  have b: "c div 64 = c div 64 div 64 * 64 + c div 64 mod 64" by simp
  have "c = c div 64 * 64 + c mod 64" by simp
  also have "c div 64 * 64 = (c div 4096 * 64 + c div 64 mod 64) * 64"
    using a b by simp
  finally show ?thesis by (simp add: algebra_simps)
qed

lemma split4:
  "(c::nat) = c div 262144 * 262144 + c div 4096 mod 64 * 4096 + c div 64 mod 64 * 64 + c mod 64"
proof -
  have a: "c div 4096 div 64 = c div 262144" by (simp add: div_mult2_eq [symmetric])
  have "c div 4096 = c div 4096 div 64 * 64 + c div 4096 mod 64" by simp
  then have "c div 4096 * 4096 = (c div 262144 * 64 + c div 4096 mod 64) * 4096"
    using a by simp
  then show ?thesis using split3 [of c] by (simp add: algebra_simps)
qed

lemma decode_one_ascii: "c < 0x80 \<Longrightarrow> decode_one (utf8_char c @ rest) = (c, 1)"
  by (simp add: utf8_char_def)

lemma decode_one_two:
  assumes "0x80 \<le> c" "c < 0x800"
  shows "decode_one (utf8_char c @ rest) = (c, 2)"
proof -
  have "\<not> 0xC0 + c div 64 < 0x80" "\<not> 0xC0 + c div 64 < 0xC2" "0xC0 + c div 64 < 0xE0"
    using assms by arith+
  moreover have "cont (0x80 + c mod 64)" by (simp add: cont_def)
  moreover have "(0xC0 + c div 64 - 0xC0) * 64 + (0x80 + c mod 64 - 0x80) = c" by simp
  ultimately show ?thesis using assms
    by (simp add: utf8_char_def del: add_diff_cancel_left' add_less_cancel_left)
qed

lemma decode_one_three_bytes:
  fixes q r s :: nat
  assumes so: "second_ok (0xE0 + q) (0x80 + r)" and c2: "cont (0x80 + s)" and qb: "q < 16"
  shows "decode_one ([0xE0 + q, 0x80 + r, 0x80 + s] @ rest) = (q * 4096 + r * 64 + s, 3)"
proof -
  have rng: "\<not> 0xE0 + q < 0x80" "\<not> 0xE0 + q < 0xC2" "\<not> 0xE0 + q < 0xE0" "0xE0 + q < 0xF0"
    using qb by simp_all
  have val: "(0xE0 + q - 0xE0) * 4096 + (0x80 + r - 0x80) * 64 + (0x80 + s - 0x80)
             = q * 4096 + r * 64 + s" by simp
  show ?thesis using so c2 val rng
    by (simp del: add_diff_cancel_left' add_less_cancel_left)
qed

lemma decode_one_three:
  assumes "0x800 \<le> c" "c < 0x10000" "\<not> is_surrogate c"
  shows "decode_one (utf8_char c @ rest) = (c, 3)"
proof -
  define q r s where "q = c div 4096" and "r = c div 64 mod 64" and "s = c mod 64"
  have c: "c = q * 4096 + r * 64 + s" unfolding q_def r_def s_def by (rule split3)
  have rb: "r < 64" and sb: "s < 64" unfolding r_def s_def by simp_all
  have qb: "q < 16" using assms(2) c by linarith
  have e0: "32 \<le> r" if "q = 0" using that assms(1) c sb by linarith
  have ed: "r < 32" if "q = 13"
  proof -
    have "c \<le> 0xDFFF" using that c rb sb by linarith
    then have "c < 0xD800" using assms(3) unfolding is_surrogate_def by simp
    then show ?thesis using that c by linarith
  qed
  have so: "second_ok (0xE0 + q) (0x80 + r)"
    unfolding second_ok_def cont_def using e0 ed rb qb by auto
  have c2: "cont (0x80 + s)" using sb by (simp add: cont_def)
  have u: "utf8_char c = [0xE0 + q, 0x80 + r, 0x80 + s]"
    using assms(1,2) by (simp add: utf8_char_def q_def r_def s_def)
  show ?thesis unfolding u using decode_one_three_bytes [OF so c2 qb, of rest] c by simp
qed

lemma decode_one_four_bytes:
  fixes q r s t :: nat
  assumes so: "second_ok (0xF0 + q) (0x80 + r)" and c2: "cont (0x80 + s)"
    and c3: "cont (0x80 + t)" and qb: "q < 5"
  shows "decode_one ([0xF0 + q, 0x80 + r, 0x80 + s, 0x80 + t] @ rest)
         = (q * 262144 + r * 4096 + s * 64 + t, 4)"
proof -
  have rng: "\<not> 0xF0 + q < 0x80" "\<not> 0xF0 + q < 0xC2" "\<not> 0xF0 + q < 0xE0"
    "\<not> 0xF0 + q < 0xF0" "0xF0 + q < 0xF5"
    using qb by simp_all
  have val: "(0xF0 + q - 0xF0) * 262144 + (0x80 + r - 0x80) * 4096 + (0x80 + s - 0x80) * 64
               + (0x80 + t - 0x80) = q * 262144 + r * 4096 + s * 64 + t" by simp
  show ?thesis using so c2 c3 val rng
    by (simp del: add_diff_cancel_left' add_less_cancel_left)
qed

lemma decode_one_four:
  assumes "0x10000 \<le> c" "c < 0x110000"
  shows "decode_one (utf8_char c @ rest) = (c, 4)"
proof -
  define q r s t where "q = c div 262144" and "r = c div 4096 mod 64"
    and "s = c div 64 mod 64" and "t = c mod 64"
  have c: "c = q * 262144 + r * 4096 + s * 64 + t"
    unfolding q_def r_def s_def t_def by (rule split4)
  have rb: "r < 64" and sb: "s < 64" and tb: "t < 64" unfolding r_def s_def t_def by simp_all
  have qb: "q < 5" using assms(2) c by linarith
  have f0: "16 \<le> r" if "q = 0" using that assms(1) c sb tb by linarith
  have f4: "r < 16" if "q = 4" using that assms(2) c by linarith
  have so: "second_ok (0xF0 + q) (0x80 + r)"
    unfolding second_ok_def cont_def using f0 f4 rb qb by auto
  have c2: "cont (0x80 + s)" and c3: "cont (0x80 + t)" using sb tb by (simp_all add: cont_def)
  have u: "utf8_char c = [0xF0 + q, 0x80 + r, 0x80 + s, 0x80 + t]"
    using assms(1) by (simp add: utf8_char_def q_def r_def s_def t_def)
  show ?thesis unfolding u using decode_one_four_bytes [OF so c2 c3 qb, of rest] c by simp
qed

lemma length_utf8_char:
  "length (utf8_char c) = (if c < 0x80 then 1 else if c < 0x800 then 2 else if c < 0x10000 then 3 else 4)"
  by (simp add: utf8_char_def)

lemma decode_one_utf8_char:
  assumes "encodable c"
  shows "decode_one (utf8_char c @ rest) = (c, length (utf8_char c))"
proof -
  have b: "c < 0x110000" and s: "\<not> is_surrogate c" using assms by (simp_all add: encodable_def)
  consider "c < 0x80" | "0x80 \<le> c" "c < 0x800" | "0x800 \<le> c" "c < 0x10000" | "0x10000 \<le> c"
    by linarith
  then show ?thesis
  proof cases
    case 1 then show ?thesis by (simp add: decode_one_ascii length_utf8_char)
  next
    case 2 then show ?thesis by (simp add: decode_one_two length_utf8_char)
  next
    case 3 then show ?thesis using s by (simp add: decode_one_three length_utf8_char)
  next
    case 4 then show ?thesis using b by (simp add: decode_one_four length_utf8_char)
  qed
qed

lemma utf8_char_bytes: "c < 0x110000 \<Longrightarrow> \<forall>b \<in> set (utf8_char c). b < 256"
proof -
  assume b: "c < 0x110000"
  have "c < 0x800 \<Longrightarrow> c div 64 < 32" by linarith
  moreover have "c < 0x10000 \<Longrightarrow> c div 4096 < 16" by linarith
  moreover have "c div 262144 < 5" using b by linarith
  ultimately show ?thesis by (auto simp: utf8_char_def)
qed

lemma unat_utf8_char:
  assumes "c < 0x110000"
  shows "map unat (map of_nat (utf8_char c) :: bytes) = utf8_char c"
proof -
  have "unat (of_nat b :: byte) = b" if "b \<in> set (utf8_char c)" for b
    using utf8_char_bytes [OF assms] that by (simp add: unat_of_nat)
  then show ?thesis by (simp add: map_idI)
qed

lemma utf8_decode_replace_step:
  "bs \<noteq> [] \<Longrightarrow>
   utf8_decode_replace bs = fst (decode_one bs) # utf8_decode_replace (drop (snd (decode_one bs)) bs)"
  by (cases bs) simp_all

lemma utf8_char_nonempty: "utf8_char c \<noteq> []"
  by (simp add: utf8_char_def)

lemma utf8_decode_replace_utf8_char:
  assumes "encodable c"
  shows "utf8_decode_replace (utf8_char c @ rest) = c # utf8_decode_replace rest"
proof -
  have "utf8_char c @ rest \<noteq> []" by (simp add: utf8_char_nonempty)
  then show ?thesis
    by (subst utf8_decode_replace_step) (simp_all add: decode_one_utf8_char [OF assms])
qed

lemma bytes_decode_str_encode: "str_encode s = Inr bs \<Longrightarrow> bytes_decode bs = s"
proof (induction s arbitrary: bs)
  case Nil
  then show ?case by (simp add: bytes_decode_def)
next
  case (Cons c cs)
  from Cons.prems have enc: "encodable c" by (simp split: if_splits)
  from Cons.prems enc obtain bs' where bs': "str_encode cs = Inr bs'"
    and bs: "bs = map of_nat (utf8_char c) @ bs'"
    by (auto split: sum.splits)
  have "c < 0x110000" using enc by (simp add: encodable_def)
  then have "map unat bs = utf8_char c @ map unat bs'"
    unfolding bs by (simp add: unat_utf8_char del: map_map)
  then show ?case
    using Cons.IH [OF bs'] enc
    by (simp add: bytes_decode_def utf8_decode_replace_utf8_char)
qed

section \<open>UTF-8: the decoder's output can be encoded\<close>

lemma enc_repl: "encodable REPLACEMENT"
  by (simp add: encodable_def is_surrogate_def REPLACEMENT_def)

lemma enc1: "b0 < 0x80 \<Longrightarrow> encodable b0"
  by (simp add: encodable_def is_surrogate_def)

lemma enc2:
  assumes "0xC2 \<le> b0" "b0 < 0xE0" "cont b1"
  shows "encodable ((b0 - 0xC0) * 64 + (b1 - 0x80))"
proof -
  have "b0 - 0xC0 < 32" "b1 - 0x80 < 64" using assms unfolding cont_def by arith+
  then have "(b0 - 0xC0) * 64 + (b1 - 0x80) < 0x800" by arith
  then show ?thesis unfolding encodable_def is_surrogate_def by simp
qed

lemma enc3:
  assumes "0xE0 \<le> b0" "b0 < 0xF0" "second_ok b0 b1" "cont b2"
  shows "encodable ((b0 - 0xE0) * 4096 + (b1 - 0x80) * 64 + (b2 - 0x80))"
proof -
  define x y z where "x = b0 - 0xE0" and "y = b1 - 0x80" and "z = b2 - 0x80"
  have c1: "cont b1" using assms(3) by (simp add: second_ok_def)
  have xb: "x < 16" using assms(1,2) by (simp add: x_def)
  have yb: "y < 64" using c1 unfolding cont_def y_def by arith
  have zb: "z < 64" using assms(4) unfolding cont_def z_def by arith
  have b0: "b0 = 0xE0 + x" using assms(1) by (simp add: x_def)
  have b1: "b1 = 0x80 + y" using c1 unfolding cont_def y_def by simp
  have sur: "y < 32" if "x = 13"
  proof -
    have "b0 = 0xED" using that b0 by simp
    then have "\<not> 0xA0 \<le> b1" using assms(3) by (simp add: second_ok_def)
    then show ?thesis using b1 by simp
  qed
  consider "x < 13" | "x = 13" | "13 < x" by arith
  then have "x * 4096 + y * 64 + z < 0xD800 \<or> 0xDFFF < x * 4096 + y * 64 + z"
  proof cases
    case 1 then show ?thesis using yb zb by arith
  next
    case 2 then show ?thesis using sur zb by simp
  next
    case 3 then show ?thesis by arith
  qed
  moreover have "x * 4096 + y * 64 + z < 0x110000" using xb yb zb by arith
  ultimately show ?thesis
    unfolding encodable_def is_surrogate_def x_def y_def z_def by auto
qed

lemma enc4:
  assumes "0xF0 \<le> b0" "b0 < 0xF5" "second_ok b0 b1" "cont b2" "cont b3"
  shows "encodable ((b0 - 0xF0) * 262144 + (b1 - 0x80) * 4096 + (b2 - 0x80) * 64 + (b3 - 0x80))"
proof -
  define x y z w where "x = b0 - 0xF0" and "y = b1 - 0x80" and "z = b2 - 0x80" and "w = b3 - 0x80"
  have c1: "cont b1" using assms(3) by (simp add: second_ok_def)
  have xb: "x < 5" using assms(1,2) by (simp add: x_def)
  have yb: "y < 64" using c1 unfolding cont_def y_def by arith
  have zb: "z < 64" using assms(4) unfolding cont_def z_def by arith
  have wb: "w < 64" using assms(5) unfolding cont_def w_def by arith
  have b0: "b0 = 0xF0 + x" using assms(1) by (simp add: x_def)
  have b1: "b1 = 0x80 + y" using c1 unfolding cont_def y_def by simp
  have top: "y < 16" if "x = 4"
  proof -
    have "b0 = 0xF4" using that b0 by simp
    then have "\<not> 0x90 \<le> b1" using assms(3) by (simp add: second_ok_def)
    then show ?thesis using b1 by simp
  qed
  have low: "16 \<le> y" if "x = 0"
  proof -
    have "b0 = 0xF0" using that b0 by simp
    then have "\<not> b1 < 0x90" using assms(3) by (simp add: second_ok_def)
    then show ?thesis using b1 by simp
  qed
  consider "x = 0" | "0 < x" "x < 4" | "x = 4" using xb by arith
  then have "0xDFFF < x * 262144 + y * 4096 + z * 64 + w
             \<and> x * 262144 + y * 4096 + z * 64 + w < 0x110000"
  proof cases
    case 1 then show ?thesis using low yb zb wb by simp
  next
    case 2 then show ?thesis using yb zb wb by arith
  next
    case 3 then show ?thesis using top zb wb by simp
  qed
  then show ?thesis
    unfolding encodable_def is_surrogate_def x_def y_def z_def w_def by auto
qed

lemma encodable_decode_one: "encodable (fst (decode_one bs))"
proof (cases bs)
  case Nil
  then show ?thesis by (simp add: enc_repl)
next
  case (Cons b0 rest)
  then show ?thesis
    by (simp add: enc_repl enc1 enc2 enc3 enc4 not_less split: list.splits)
qed

lemma encodable_utf8_decode_replace: "list_all encodable (utf8_decode_replace bs)"
proof (induction bs rule: utf8_decode_replace.induct)
  case 1
  then show ?case by simp
next
  case (2 b bs)
  then show ?case by (simp add: encodable_decode_one del: decode_one.simps)
qed

lemma str_encode_total: "list_all encodable s \<Longrightarrow> \<exists>bs. str_encode s = Inr bs"
  by (induction s) auto

lemma str_encode_Inr_encodable: "str_encode s = Inr bs \<Longrightarrow> list_all encodable s"
  by (induction s arbitrary: bs) (auto split: if_splits sum.splits)

lemma str_encode_Inl: "str_encode s = Inl e \<Longrightarrow> e = UnicodeEncodeError \<and> \<not> list_all encodable s"
  by (induction s) (auto split: if_splits sum.splits)

lemma str_encode_bytes_decode_total: "\<exists>m. str_encode (bytes_decode bs) = Inr m"
  unfolding bytes_decode_def by (rule str_encode_total) (rule encodable_utf8_decode_replace)

section \<open>The digest and its hexadecimal form\<close>

lemma length_word_bytes: "length (word_bytes w) = 4"
  by (simp add: word_bytes_def)

lemma length_state_bytes: "length (state_bytes s) = 32"
  by (simp add: state_bytes_def length_word_bytes split: prod.splits)

lemma length_sha256: "length (sha256 m) = 32"
  by (simp add: sha256_def Let_def length_state_bytes)

lemma length_hmac_sha256: "length (hmac_sha256 k m) = 32"
  by (simp add: hmac_sha256_def Let_def length_sha256)

lemma length_hexdigest: "length (hexdigest bs) = 2 * length bs"
  by (induction bs) (simp_all add: hexdigest_def hex_byte_def)

lemma is_lower_hex_hex_digit: "n < 16 \<Longrightarrow> is_lower_hex (hex_digit n)"
  by (simp add: is_lower_hex_def hex_digit_def)

lemma unat_byte_div16: "unat (b :: byte) div 16 < 16"
proof -
  have "unat b < 2 ^ LENGTH(8)" by (rule unsigned_less)
  then have "unat b < 256" by simp
  then show ?thesis by linarith
qed

lemma lower_hex_hex_byte: "list_all is_lower_hex (hex_byte b)"
  by (simp add: hex_byte_def is_lower_hex_hex_digit unat_byte_div16)

lemma lower_hex_hexdigest: "list_all is_lower_hex (hexdigest bs)"
  by (induction bs) (simp_all add: hexdigest_def lower_hex_hex_byte)

lemma is_lower_hex_ascii: "is_lower_hex c \<Longrightarrow> c < 128"
  by (auto simp: is_lower_hex_def)

lemma is_ascii_hexdigest: "is_ascii (hexdigest bs)"
  unfolding is_ascii_def
  using lower_hex_hexdigest [of bs] by (auto simp: list_all_iff is_lower_hex_ascii)

lemma hex_value_hex_digit: "n < 16 \<Longrightarrow> hex_value (hex_digit n) = n"
  by (simp add: hex_value_def hex_digit_def)

lemma fromhex_hex_byte: "fromhex (hex_byte b @ cs) = b # fromhex cs"
proof -
  have "hex_value (hex_digit (unat b div 16)) * 16 + hex_value (hex_digit (unat b mod 16))
        = unat b"
    by (simp add: hex_value_hex_digit unat_byte_div16)
  then show ?thesis by (simp add: hex_byte_def)
qed

lemma fromhex_hexdigest: "fromhex (hexdigest bs) = bs"
  by (induction bs) (simp_all add: hexdigest_def fromhex_hex_byte)

lemma compare_digest_hexdigest:
  "compare_digest (Some (hexdigest bs)) (hexdigest bs) = Inr True"
  by (simp add: compare_digest_def is_ascii_hexdigest)

lemma compare_digest_ascii:
  "is_ascii c \<Longrightarrow> compare_digest (Some c) (hexdigest bs) = Inr (c = hexdigest bs)"
  by (simp add: compare_digest_def is_ascii_hexdigest)

lemma compare_digest_None: "compare_digest None b = Inl TypeError"
  by (simp add: compare_digest_def)

lemma verify_signature_encoded:
  "str_encode P = Inr m \<Longrightarrow>
   verify_signature v P sig = compare_digest sig (hexdigest (hmac_sha256 (secret v) m))"
  by (simp add: verify_signature_def)

lemma generate_signature_encoded:
  "str_encode P = Inr m \<Longrightarrow>
   generate_signature v P = Inr (hexdigest (hmac_sha256 (secret v) m))"
  by (simp add: generate_signature_def)

section \<open>Claims about \<^verbatim>\<open>WebhookVerifier\<close>\<close>

text \<open>
  C1 (as stated: for every secret and every payload string,
  \<^verbatim>\<open>verify_signature(P, generate_signature(P))\<close> returns true). A payload with a lone
  surrogate is a Python string that \<^verbatim>\<open>payload.encode('utf-8')\<close> refuses, so the
  expression raises \<^verbatim>\<open>UnicodeEncodeError\<close> there instead of returning true.
\<close>

theorem roundtrip_surrogate_counterexample:
  "sign_then_verify \<lparr>secret = [0x6B]\<rparr> [0xD800] = Inl UnicodeEncodeError
   \<and> sign_then_verify \<lparr>secret = [0x6B]\<rparr> [0xD800] \<noteq> Inr True"
  by (simp add: sign_then_verify_def generate_signature_def encodable_def is_surrogate_def)

text \<open>
  C1, amended: for every secret held by a verifier and every payload string that can be
  encoded as UTF-8 (no lone surrogate), signing the payload and verifying the result on the
  same verifier returns true.
\<close>

theorem sign_then_verify_true:
  "list_all encodable P \<Longrightarrow> sign_then_verify v P = Inr True"
proof -
  assume "list_all encodable P"
  then obtain m where m: "str_encode P = Inr m"
    using str_encode_total by blast
  show ?thesis
    by (simp add: sign_then_verify_def generate_signature_encoded [OF m]
        verify_signature_encoded [OF m] compare_digest_hexdigest)
qed

theorem sign_then_verify_true_witness:
  "list_all encodable [0x7B, 0x20AC, 0x7D]
   \<and> sign_then_verify \<lparr>secret = [0x77, 0x68]\<rparr> [0x7B, 0x20AC, 0x7D] = Inr True"
proof -
  have h: "list_all encodable [0x7B, 0x20AC, 0x7D]"
    by (simp add: encodable_def is_surrogate_def)
  show ?thesis
    using h sign_then_verify_true [OF h, of "\<lparr>secret = [0x77, 0x68]\<rparr>"] by (rule conjI)
qed

text \<open>
  C2 (as stated: an absent or empty secret makes construction fail with a configuration
  error). \<^verbatim>\<open>__init__\<close> checks nothing: the empty string is encoded to the empty key and
  the verifier is built.
\<close>

theorem init_empty_secret_counterexample:
  "WebhookVerifier_init (Some []) = Inr \<lparr>secret = []\<rparr>"
  by (simp add: WebhookVerifier_init_def)

text \<open>
  C2, amended: an absent secret (\<^verbatim>\<open>None\<close>) makes construction fail at construction
  time, with the \<^verbatim>\<open>AttributeError\<close> of \<^verbatim>\<open>secret.encode\<close>; every string that can be
  encoded, the empty one included, is accepted and its UTF-8 bytes become the key, so that
  signing with the empty key runs and returns the digest string of HMAC under that key.
\<close>

theorem init_secret:
  "WebhookVerifier_init None = Inl AttributeError
   \<and> (str_encode s = Inr k \<longrightarrow> WebhookVerifier_init (Some s) = Inr \<lparr>secret = k\<rparr>)
   \<and> (str_encode P = Inr m \<longrightarrow>
        generate_signature \<lparr>secret = []\<rparr> P = Inr (hexdigest (hmac_sha256 [] m)))"
  by (simp add: WebhookVerifier_init_def generate_signature_def)

theorem init_secret_witness:
  "str_encode [] = Inr [] \<and> str_encode [0x61] = Inr [0x61]
   \<and> WebhookVerifier_init None = Inl AttributeError
   \<and> WebhookVerifier_init (Some []) = Inr \<lparr>secret = []\<rparr>
   \<and> generate_signature \<lparr>secret = []\<rparr> [0x61] = Inr (hexdigest (hmac_sha256 [] [0x61]))"
proof -
  have h1: "str_encode [] = Inr []" by simp
  have h2: "str_encode [0x61] = Inr [0x61]"
    by (simp add: encodable_def is_surrogate_def utf8_char_def)
  show ?thesis
    using h1 h2 init_secret [of "[]" "[]" "[0x61]" "[0x61]"] by blast
qed

text \<open>
  C3 (as stated: verification returns true exactly on the full-string match and never raises
  on a malformed candidate). A candidate with a character outside ASCII makes
  \<^verbatim>\<open>hmac.compare_digest\<close> raise \<^verbatim>\<open>TypeError\<close>.
\<close>

theorem verify_non_ascii_counterexample:
  "verify_signature \<lparr>secret = [0x6B]\<rparr> [0x61] (Some [0xE9]) = Inl TypeError"
  by (simp add: verify_signature_def compare_digest_def is_ascii_def
      encodable_def is_surrogate_def)

text \<open>
  C3, amended: for every payload that can be encoded as UTF-8 and every candidate signature
  string of ASCII characters only, verification does not raise and returns true if and only
  if the candidate equals the signature that \<^verbatim>\<open>generate_signature\<close> returns for the
  payload; a candidate of another length or content gives false.
\<close>

theorem verify_iff_equal:
  "list_all encodable P \<Longrightarrow> is_ascii C \<Longrightarrow>
   \<exists>s. generate_signature v P = Inr s \<and> verify_signature v P (Some C) = Inr (C = s)"
proof -
  assume "list_all encodable P" and a: "is_ascii C"
  then obtain m where m: "str_encode P = Inr m"
    using str_encode_total by blast
  show ?thesis
    by (simp add: generate_signature_encoded [OF m] verify_signature_encoded [OF m]
        compare_digest_ascii [OF a])
qed

theorem verify_iff_equal_witness:
  "list_all encodable [0x61] \<and> is_ascii [0x30, 0x66]
   \<and> (\<exists>s. generate_signature \<lparr>secret = [0x6B]\<rparr> [0x61] = Inr s
          \<and> verify_signature \<lparr>secret = [0x6B]\<rparr> [0x61] (Some [0x30, 0x66]) = Inr ([0x30, 0x66] = s))"
proof -
  have h1: "list_all encodable [0x61]" by (simp add: encodable_def is_surrogate_def)
  have h2: "is_ascii [0x30, 0x66]" by (simp add: is_ascii_def)
  show ?thesis
    using h1 h2 verify_iff_equal [OF h1 h2, of "\<lparr>secret = [0x6B]\<rparr>"] by blast
qed

text \<open>
  C8 (as stated: for every secret and every payload the signature is a string of 64
  lowercase hexadecimal digits encoding the HMAC-SHA-256). For a payload with a lone
  surrogate \<^verbatim>\<open>generate_signature\<close> returns no string: the encoding raises.
\<close>

theorem generate_surrogate_counterexample:
  "generate_signature \<lparr>secret = [0x6B]\<rparr> [0x61, 0xDFFF] = Inl UnicodeEncodeError"
  by (simp add: generate_signature_def encodable_def is_surrogate_def)

text \<open>
  C8, amended: for every secret and every payload that can be encoded as UTF-8, whatever its
  length, \<^verbatim>\<open>generate_signature\<close> returns a string of exactly 64 characters, each a
  lowercase hexadecimal digit, and the string read back as hexadecimal is the 32-byte
  HMAC-SHA-256 of the encoded payload under the secret.
\<close>

theorem generate_signature_format:
  "list_all encodable P \<Longrightarrow>
   \<exists>s m. str_encode P = Inr m \<and> generate_signature v P = Inr s
        \<and> length s = 64 \<and> list_all is_lower_hex s
        \<and> fromhex s = hmac_sha256 (secret v) m \<and> length (hmac_sha256 (secret v) m) = 32"
proof -
  assume "list_all encodable P"
  then obtain m where m: "str_encode P = Inr m"
    using str_encode_total by blast
  show ?thesis
    by (simp add: m generate_signature_encoded [OF m] length_hexdigest length_hmac_sha256
        lower_hex_hexdigest fromhex_hexdigest)
qed

theorem generate_signature_format_witness:
  "list_all encodable [0x68, 0x69]
   \<and> (\<exists>s m. str_encode [0x68, 0x69] = Inr m
          \<and> generate_signature \<lparr>secret = [0x6B]\<rparr> [0x68, 0x69] = Inr s
          \<and> length s = 64 \<and> list_all is_lower_hex s
          \<and> fromhex s = hmac_sha256 (secret \<lparr>secret = [0x6B]\<rparr>) m
          \<and> length (hmac_sha256 (secret \<lparr>secret = [0x6B]\<rparr>) m) = 32)"
proof -
  have h: "list_all encodable [0x68, 0x69]" by (simp add: encodable_def is_surrogate_def)
  show ?thesis
    using h generate_signature_format [OF h, of "\<lparr>secret = [0x6B]\<rparr>"] by (rule conjI)
qed

section \<open>Claims about \<^verbatim>\<open>handle_webhook\<close>\<close>

lemma handle_webhook_verify:
  "handle_webhook out v r =
     (case verify_signature v (get_data_as_text r)
             (headers_get (headers r) ''X-Webhook-Signature'') of
        Inl e \<Rightarrow> (Inl e, [])
      | Inr False \<Rightarrow>
          (Inr \<lparr>status = 401, body = JDict [(py ''error'', JStr (py ''Invalid signature''))]\<rparr>, [])
      | Inr True \<Rightarrow>
          (case get_json r of
             Inl e \<Rightarrow> (Inl e, [GetJson])
           | Inr d \<Rightarrow>
               (case py_get d (py ''type'') of
                  Inl e \<Rightarrow> (Inl e, [GetJson])
                | Inr event_type \<Rightarrow>
                    (case py_get d (py ''data'') of
                       Inl e \<Rightarrow> (Inl e, [GetJson])
                     | Inr event_data \<Rightarrow>
                         (case dispatch event_type event_data of
                            (label, val) \<Rightarrow>
                              (case out label val of
                                 Some e \<Rightarrow> (Inl e, [GetJson])
                               | None \<Rightarrow>
                                   (Inr \<lparr>status = 200,
                                         body = JDict [(py ''received'', JBool True)]\<rparr>,
                                    [GetJson, Print label val])))))))"
  by (simp add: handle_webhook_def Let_def)

lemma headers_get_only:
  "same_name k name \<Longrightarrow> headers_get [(k, v)] name = Some v"
  by (simp add: headers_get_def)

lemma verify_signature_request:
  "\<exists>m. str_encode (get_data_as_text r) = Inr m
       \<and> generate_signature v (get_data_as_text r) = Inr (hexdigest (hmac_sha256 (secret v) m))
       \<and> verify_signature v (get_data_as_text r) sig
           = compare_digest sig (hexdigest (hmac_sha256 (secret v) m))"
proof -
  obtain m where m: "str_encode (get_data_as_text r) = Inr m"
    unfolding get_data_as_text_def using str_encode_bytes_decode_total by blast
  then show ?thesis
    using verify_signature_encoded [OF m] generate_signature_encoded [OF m] by blast
qed





lemma get_data_as_text_valid:
  "str_encode s = Inr (data r) \<Longrightarrow> get_data_as_text r = s"
  by (simp add: get_data_as_text_def bytes_decode_str_encode)

lemma verify_signature_of_body:
  "str_encode s = Inr (data r) \<Longrightarrow>
   verify_signature v (get_data_as_text r) (Some (hexdigest (hmac_sha256 (secret v) (data r))))
     = Inr True"
  by (simp add: get_data_as_text_valid verify_signature_encoded compare_digest_hexdigest)

lemma print_error_ends_handler:
  assumes "verify_signature v (get_data_as_text r)
             (headers_get (headers r) ''X-Webhook-Signature'') = Inr True"
    and "get_json r = Inr (JDict kvs)"
    and "dispatch (dict_get kvs (py ''type'')) (dict_get kvs (py ''data'')) = (label, val)"
    and "out label val = Some e"
  shows "handle_webhook out v r = (Inl e, [GetJson])"
  using assms by (simp add: handle_webhook_verify)

text \<open>
  On a UTF-8 standard output a correctly signed object whose \<^verbatim>\<open>type\<close> is a string with a
  lone surrogate reaches the fallback branch, whose \<^verbatim>\<open>print\<close> raises: no 200 is sent.
\<close>

lemma surrogate_type_raises:
  assumes "verify_signature v (get_data_as_text r)
             (headers_get (headers r) ''X-Webhook-Signature'') = Inr True"
    and "get_json r = Inr (JDict [(py ''type'', JStr [0xD800])])"
  shows "handle_webhook utf8_stdout v r = (Inl UnicodeEncodeError, [GetJson])"
proof -
  have d: "dispatch (dict_get [(py ''type'', JStr [0xD800])] (py ''type''))
             (dict_get [(py ''type'', JStr [0xD800])] (py ''data''))
           = (''Unknown event type: '', JStr [0xD800])"
    by (simp add: dispatch_def dict_get_def py_def)
  have p: "utf8_stdout ''Unknown event type: '' (JStr [0xD800]) = Some UnicodeEncodeError"
    by (simp add: utf8_stdout_def encodable_def is_surrogate_def)
  show ?thesis
    by (rule print_error_ends_handler
          [where out = utf8_stdout and label = "''Unknown event type: ''"
             and val = "JStr [0xD800]", OF assms d p])
qed

text \<open>
  C4 (as stated: the HMAC is computed over exactly the raw bytes of the body, with no
  re-encoding in between). The handler decodes the body as text and \<^verbatim>\<open>verify_signature\<close>
  encodes the text again; for the one-byte body \<open>FF\<close>, which is not UTF-8, the HMAC is
  computed over the three bytes \<open>EF BF BD\<close> of U+FFFD.
\<close>

theorem raw_bytes_counterexample:
  "str_encode (get_data_as_text \<lparr>headers = [], data = [0xFF], get_json = Inl BadRequest\<rparr>)
     = Inr [0xEF, 0xBF, 0xBD]
   \<and> str_encode (get_data_as_text \<lparr>headers = [], data = [0xFF], get_json = Inl BadRequest\<rparr>)
     \<noteq> Inr (data \<lparr>headers = [], data = [0xFF], get_json = Inl BadRequest\<rparr>)"
  by (simp add: get_data_as_text_def bytes_decode_def REPLACEMENT_def
      encodable_def is_surrogate_def utf8_char_def)

text \<open>
  C4, amended: the handler decodes the received body as UTF-8 text and
  \<^verbatim>\<open>verify_signature\<close> encodes that text as UTF-8 again; the bytes over which the HMAC is
  computed are the raw bytes of the body exactly when the body is well-formed UTF-8 (the
  encoding of some string), and for such a body the verification compares the candidate with
  the digest of the raw body.
\<close>

theorem hmac_over_raw_body:
  "((\<exists>s. str_encode s = Inr (data r)) \<longleftrightarrow> str_encode (get_data_as_text r) = Inr (data r))
   \<and> (str_encode s = Inr (data r) \<longrightarrow>
        verify_signature v (get_data_as_text r) sig
          = compare_digest sig (hexdigest (hmac_sha256 (secret v) (data r))))"
proof (intro conjI impI iffI)
  assume "\<exists>s. str_encode s = Inr (data r)"
  then obtain s' where s': "str_encode s' = Inr (data r)" by blast
  then show "str_encode (get_data_as_text r) = Inr (data r)"
    by (simp add: get_data_as_text_valid [OF s'])
next
  assume "str_encode (get_data_as_text r) = Inr (data r)"
  then show "\<exists>s. str_encode s = Inr (data r)" by blast
next
  assume s: "str_encode s = Inr (data r)"
  then show "verify_signature v (get_data_as_text r) sig
          = compare_digest sig (hexdigest (hmac_sha256 (secret v) (data r)))"
    by (simp add: get_data_as_text_valid [OF s] verify_signature_encoded [OF s])
qed

theorem hmac_over_raw_body_witness:
  "str_encode [0xE9] = Inr (data \<lparr>headers = [], data = [0xC3, 0xA9], get_json = Inl BadRequest\<rparr>)
   \<and> str_encode (get_data_as_text \<lparr>headers = [], data = [0xC3, 0xA9], get_json = Inl BadRequest\<rparr>)
       = Inr [0xC3, 0xA9]
   \<and> verify_signature \<lparr>secret = [0x6B]\<rparr>
        (get_data_as_text \<lparr>headers = [], data = [0xC3, 0xA9], get_json = Inl BadRequest\<rparr>) None
       = compare_digest None (hexdigest (hmac_sha256 [0x6B] [0xC3, 0xA9]))"
proof -
  have h: "str_encode [0xE9]
           = Inr (data \<lparr>headers = [], data = [0xC3, 0xA9], get_json = Inl BadRequest\<rparr>)"
    by (simp add: encodable_def is_surrogate_def utf8_char_def)
  note t = hmac_over_raw_body
      [of "\<lparr>headers = [], data = [0xC3, 0xA9], get_json = Inl BadRequest\<rparr>" "[0xE9]"
          "\<lparr>secret = [0x6B]\<rparr>" None]
  have a: "str_encode (get_data_as_text
              \<lparr>headers = [], data = [0xC3, 0xA9], get_json = Inl BadRequest\<rparr>)
           = Inr (data \<lparr>headers = [], data = [0xC3, 0xA9], get_json = Inl BadRequest\<rparr>)"
    using t h by blast
  have b: "verify_signature \<lparr>secret = [0x6B]\<rparr>
        (get_data_as_text \<lparr>headers = [], data = [0xC3, 0xA9], get_json = Inl BadRequest\<rparr>) None
       = compare_digest None (hexdigest (hmac_sha256 (secret \<lparr>secret = [0x6B]\<rparr>)
           (data \<lparr>headers = [], data = [0xC3, 0xA9], get_json = Inl BadRequest\<rparr>)))"
    using t h by blast
  show ?thesis using h a b by simp
qed




text \<open>
  C9: for a request without the \<^verbatim>\<open>X-Webhook-Signature\<close> header the handler passes
  \<^verbatim>\<open>None\<close> as the candidate, \<^verbatim>\<open>verify_signature\<close> raises \<^verbatim>\<open>TypeError\<close> (from
  \<^verbatim>\<open>hmac.compare_digest\<close>) instead of returning false, and the handler ends with that
  exception: no 401 response is built.
\<close>

theorem missing_header_raises:
  "headers_get (headers r) ''X-Webhook-Signature'' = None \<Longrightarrow>
   verify_signature v (get_data_as_text r) None = Inl TypeError
   \<and> handle_webhook out v r = (Inl TypeError, [])"
proof -
  assume h: "headers_get (headers r) ''X-Webhook-Signature'' = None"
  obtain m where "verify_signature v (get_data_as_text r) None
      = compare_digest None (hexdigest (hmac_sha256 (secret v) m))"
    using verify_signature_request by blast
  then have "verify_signature v (get_data_as_text r) None = Inl TypeError"
    by (simp add: compare_digest_None)
  then show ?thesis by (simp add: handle_webhook_verify h)
qed

theorem missing_header_raises_witness:
  "headers_get (headers \<lparr>headers = [(''Content-Type'', py ''application/json'')],
                         data = [0x7B, 0x7D], get_json = Inr (JDict [])\<rparr>)
     ''X-Webhook-Signature'' = None
   \<and> verify_signature \<lparr>secret = [0x6B]\<rparr>
        (get_data_as_text \<lparr>headers = [(''Content-Type'', py ''application/json'')],
                           data = [0x7B, 0x7D], get_json = Inr (JDict [])\<rparr>) None
     = Inl TypeError
   \<and> handle_webhook utf8_stdout \<lparr>secret = [0x6B]\<rparr>
        \<lparr>headers = [(''Content-Type'', py ''application/json'')],
         data = [0x7B, 0x7D], get_json = Inr (JDict [])\<rparr>
     = (Inl TypeError, [])"
proof -
  let ?r = "\<lparr>headers = [(''Content-Type'', py ''application/json'')],
             data = [0x7B, 0x7D], get_json = Inr (JDict [])\<rparr>"
  have h: "headers_get (headers ?r) ''X-Webhook-Signature'' = None"
    by (simp add: headers_get_def same_name_def ascii_lower_def)
  show ?thesis
    using h missing_header_raises [OF h, of "\<lparr>secret = [0x6B]\<rparr>" utf8_stdout]
    by (intro conjI) blast+
qed

text \<open>
  C10 (as stated: every request whose signature verifies is answered 200 with
  \<open>{'received': True}\<close>). A verified body that parses to a JSON array has no method
  \<^verbatim>\<open>get\<close>: for the body \<open>[]\<close>, signed correctly under the key \<open>k\<close>, the handler raises
  \<^verbatim>\<open>AttributeError\<close> after \<^verbatim>\<open>request.get_json()\<close> and sends no 200.
\<close>

theorem verified_array_counterexample:
  "verify_signature \<lparr>secret = [0x6B]\<rparr>
      (get_data_as_text
         \<lparr>headers = [(''X-Webhook-Signature'', hexdigest (hmac_sha256 [0x6B] [0x5B, 0x5D]))],
          data = [0x5B, 0x5D], get_json = Inr (JList [])\<rparr>)
      (headers_get (headers
         \<lparr>headers = [(''X-Webhook-Signature'', hexdigest (hmac_sha256 [0x6B] [0x5B, 0x5D]))],
          data = [0x5B, 0x5D], get_json = Inr (JList [])\<rparr>) ''X-Webhook-Signature'') = Inr True
   \<and> handle_webhook utf8_stdout \<lparr>secret = [0x6B]\<rparr>
        \<lparr>headers = [(''X-Webhook-Signature'', hexdigest (hmac_sha256 [0x6B] [0x5B, 0x5D]))],
         data = [0x5B, 0x5D], get_json = Inr (JList [])\<rparr>
     = (Inl AttributeError, [GetJson])"
proof -
  let ?r = "\<lparr>headers = [(''X-Webhook-Signature'', hexdigest (hmac_sha256 [0x6B] [0x5B, 0x5D]))],
             data = [0x5B, 0x5D], get_json = Inr (JList [])\<rparr>"
  have g: "headers_get (headers ?r) ''X-Webhook-Signature''
           = Some (hexdigest (hmac_sha256 [0x6B] [0x5B, 0x5D]))"
    by (simp add: headers_get_only same_name_def)
  have e: "str_encode [0x5B, 0x5D] = Inr (data ?r)"
    by (simp add: encodable_def is_surrogate_def utf8_char_def)
  have v: "verify_signature \<lparr>secret = [0x6B]\<rparr> (get_data_as_text ?r)
             (headers_get (headers ?r) ''X-Webhook-Signature'') = Inr True"
    unfolding g using verify_signature_of_body [OF e, of "\<lparr>secret = [0x6B]\<rparr>"] by simp
  have h: "handle_webhook utf8_stdout \<lparr>secret = [0x6B]\<rparr> ?r = (Inl AttributeError, [GetJson])"
    by (simp only: handle_webhook_verify v) simp
  show ?thesis using v h by (rule conjI)
qed

text \<open>
  C10, amended: for every request whose signature verifies, whose body Flask parses to a
  JSON object, and whose \<^verbatim>\<open>print\<close> statement completes on the standard output, the
  handler responds 200 with \<open>{'received': True}\<close> whatever the event type: after
  \<^verbatim>\<open>request.get_json()\<close> exactly one line is printed, and an object without a
  \<^verbatim>\<open>type\<close> field, or with a type that is none of the three known strings, reaches the
  fallback branch.
\<close>

theorem verified_object_acknowledged:
  assumes "verify_signature v (get_data_as_text r)
             (headers_get (headers r) ''X-Webhook-Signature'') = Inr True"
    and "get_json r = Inr (JDict kvs)"
    and "dispatch (dict_get kvs (py ''type'')) (dict_get kvs (py ''data'')) = (label, val)"
    and "out label val = None"
  shows "handle_webhook out v r =
           (Inr \<lparr>status = 200, body = JDict [(py ''received'', JBool True)]\<rparr>,
            [GetJson, Print label val])
     \<and> (dict_get kvs (py ''type'') \<noteq> JStr (py ''purchase.completed'')
          \<and> dict_get kvs (py ''type'') \<noteq> JStr (py ''content.uploaded'')
          \<and> dict_get kvs (py ''type'') \<noteq> JStr (py ''payout.processed'') \<longrightarrow>
        label = ''Unknown event type: '' \<and> val = dict_get kvs (py ''type''))
     \<and> (map_of kvs (py ''type'') = None \<longrightarrow>
        label = ''Unknown event type: '' \<and> val = JNone)"
proof (intro conjI impI)
  show "handle_webhook out v r =
           (Inr \<lparr>status = 200, body = JDict [(py ''received'', JBool True)]\<rparr>,
            [GetJson, Print label val])"
    using assms by (simp add: handle_webhook_verify)
next
  assume "dict_get kvs (py ''type'') \<noteq> JStr (py ''purchase.completed'')
          \<and> dict_get kvs (py ''type'') \<noteq> JStr (py ''content.uploaded'')
          \<and> dict_get kvs (py ''type'') \<noteq> JStr (py ''payout.processed'')"
  then have "dispatch (dict_get kvs (py ''type'')) (dict_get kvs (py ''data''))
             = (''Unknown event type: '', dict_get kvs (py ''type''))"
    by (simp add: dispatch_def)
  then show "label = ''Unknown event type: ''" and "val = dict_get kvs (py ''type'')"
    using assms(3) by simp_all
next
  assume "map_of kvs (py ''type'') = None"
  then have n: "dict_get kvs (py ''type'') = JNone" by (simp add: dict_get_def)
  have "dispatch JNone (dict_get kvs (py ''data'')) = (''Unknown event type: '', JNone)"
    by (simp add: dispatch_def)
  then show "label = ''Unknown event type: ''" and "val = JNone"
    using assms(3) n by simp_all
qed

theorem verified_object_acknowledged_witness:
  "verify_signature \<lparr>secret = [0x6B]\<rparr>
      (get_data_as_text
         \<lparr>headers = [(''X-Webhook-Signature'', hexdigest (hmac_sha256 [0x6B] [0x7B, 0x7D]))],
          data = [0x7B, 0x7D], get_json = Inr (JDict [])\<rparr>)
      (headers_get (headers
         \<lparr>headers = [(''X-Webhook-Signature'', hexdigest (hmac_sha256 [0x6B] [0x7B, 0x7D]))],
          data = [0x7B, 0x7D], get_json = Inr (JDict [])\<rparr>) ''X-Webhook-Signature'') = Inr True
   \<and> get_json
        \<lparr>headers = [(''X-Webhook-Signature'', hexdigest (hmac_sha256 [0x6B] [0x7B, 0x7D]))],
         data = [0x7B, 0x7D], get_json = Inr (JDict [])\<rparr> = Inr (JDict [])
   \<and> dispatch (dict_get [] (py ''type'')) (dict_get [] (py ''data''))
       = (''Unknown event type: '', JNone)
   \<and> utf8_stdout ''Unknown event type: '' JNone = None
   \<and> handle_webhook utf8_stdout \<lparr>secret = [0x6B]\<rparr>
        \<lparr>headers = [(''X-Webhook-Signature'', hexdigest (hmac_sha256 [0x6B] [0x7B, 0x7D]))],
         data = [0x7B, 0x7D], get_json = Inr (JDict [])\<rparr>
     = (Inr \<lparr>status = 200, body = JDict [(py ''received'', JBool True)]\<rparr>,
        [GetJson, Print ''Unknown event type: '' JNone])"
proof -
  let ?r = "\<lparr>headers = [(''X-Webhook-Signature'', hexdigest (hmac_sha256 [0x6B] [0x7B, 0x7D]))],
             data = [0x7B, 0x7D], get_json = Inr (JDict [])\<rparr>"
  have g: "headers_get (headers ?r) ''X-Webhook-Signature''
           = Some (hexdigest (hmac_sha256 [0x6B] [0x7B, 0x7D]))"
    by (simp add: headers_get_only same_name_def)
  have e: "str_encode [0x7B, 0x7D] = Inr (data ?r)"
    by (simp add: encodable_def is_surrogate_def utf8_char_def)
  have h: "verify_signature \<lparr>secret = [0x6B]\<rparr> (get_data_as_text ?r)
             (headers_get (headers ?r) ''X-Webhook-Signature'') = Inr True"
    unfolding g using verify_signature_of_body [OF e, of "\<lparr>secret = [0x6B]\<rparr>"] by simp
  have j: "get_json ?r = Inr (JDict [])" by simp
  have d: "dispatch (dict_get [] (py ''type'')) (dict_get [] (py ''data''))
           = (''Unknown event type: '', JNone)"
    by (simp add: dispatch_def dict_get_def)
  have p: "utf8_stdout ''Unknown event type: '' JNone = None"
    by (simp add: utf8_stdout_def)
  have t: "handle_webhook utf8_stdout \<lparr>secret = [0x6B]\<rparr> ?r
     = (Inr \<lparr>status = 200, body = JDict [(py ''received'', JBool True)]\<rparr>,
        [GetJson, Print ''Unknown event type: '' JNone])"
    using verified_object_acknowledged
      [where out = utf8_stdout and label = "''Unknown event type: ''" and val = JNone,
       OF h j d p]
    by blast
  show ?thesis using h j d p t by (intro conjI)
qed

end
